theory Spec2Isabelle
  imports Complex_Main "HOL-Library.Word"
begin

section \<open>The problem class of the parallel optimizer (ParOptProblem.h)\<close>

text \<open>
  The header declares the base class \<open>ParOptProblem\<close>: five data members (the
  communicator and four sizes), two constructors, the size accessors, two vector
  factories, four optional hooks with default bodies, and the pure virtual evaluation
  hooks. The members with a body are embedded below as functions on an explicit
  program state; the pure virtual ones have no body in the header.
\<close>

subsection \<open>Values, pointers, errors\<close>

text \<open>A C++ \<open>int\<close> is a 32-bit machine word; \<open>sint\<close> reads it as a signed value.\<close>

type_synonym cint = "32 word"

text \<open>
  \<open>MPI_Comm\<close> comes from the MPI library: an opaque handle that the class only
  stores, passes on and returns. Two handles are the same communicator exactly when they
  are equal.
\<close>

datatype MPI_Comm = MPI_Comm nat

text \<open>A pointer is null or the address of a cell of the memory it points into.\<close>

datatype ptr = Null | Addr nat

text \<open>
  What a call can run into: a write or a member call through a null pointer, through a
  pointer to no object, and (for vectors, see below) operands of different lengths.
\<close>

datatype error = NullPointer | InvalidPointer | ConfigurationError

definition bind_err :: "error + 'a \<Rightarrow> ('a \<Rightarrow> error + 'b) \<Rightarrow> error + 'b" where
  "bind_err m f = (case m of Inl e \<Rightarrow> Inl e | Inr a \<Rightarrow> f a)"

subsection \<open>The object and the memory around it\<close>

text \<open>The data members of the class (lines 171-172).\<close>

record ParOptProblem =
  comm :: MPI_Comm
  nvars :: cint
  ncon :: cint
  nwcon :: cint
  nwblock :: cint

text \<open>
  Modelled from the spec: the distributed vector classes \<open>ParOptVec\<close> and
  \<open>ParOptBasicVec\<close> of ParOptVec.h, which the header includes. The spec describes a
  vector as a distributed array of a given local length, bound to a process group, with
  a value copy among its capabilities. A vector object is its process group, its local
  length as the constructor received it, and its local values.
\<close>

record 's ParOptVec =
  vcomm :: MPI_Comm
  vsize :: cint
  vdata :: "'s list"

text \<open>
  The program state: the problem object itself (\<open>this\<close>), the caller's \<open>int\<close>
  variables, the caller's scalar cells (the targets of \<open>ParOptScalar*\<close> arguments),
  and the heap of vector objects, where the address of an object is its position. The
  scalar type \<open>ParOptScalar\<close> is a type parameter. The data members are protected, so
  no caller's pointer points into the object.
\<close>

record 's world =
  prob :: ParOptProblem
  imem :: "nat \<rightharpoonup> cint"
  smem :: "nat \<rightharpoonup> 's"
  vheap :: "'s ParOptVec list"

text \<open>The assignment \<open>*p = v\<close> through an \<open>int*\<close>.\<close>

fun store_int :: "ptr \<Rightarrow> cint \<Rightarrow> 's world \<Rightarrow> error + 's world" where
  "store_int Null v w = Inl NullPointer"
| "store_int (Addr a) v w =
     (case imem w a of
        None \<Rightarrow> Inl InvalidPointer
      | Some _ \<Rightarrow> Inr (w\<lparr>imem := (imem w)(a \<mapsto> v)\<rparr>))"

text \<open>Reading \<open>*p\<close> through an \<open>int*\<close>.\<close>

fun load_int :: "ptr \<Rightarrow> 's world \<Rightarrow> error + cint" where
  "load_int Null w = Inl NullPointer"
| "load_int (Addr a) w =
     (case imem w a of None \<Rightarrow> Inl InvalidPointer | Some v \<Rightarrow> Inr v)"

text \<open>The vector object a \<open>ParOptVec*\<close> points to.\<close>

fun deref_vec :: "ptr \<Rightarrow> 's world \<Rightarrow> error + 's ParOptVec" where
  "deref_vec Null w = Inl NullPointer"
| "deref_vec (Addr a) w =
     (if a < length (vheap w) then Inr (vheap w ! a) else Inl InvalidPointer)"

text \<open>Writing the members of the vector object a \<open>ParOptVec*\<close> points to.\<close>

fun store_vec :: "ptr \<Rightarrow> 's ParOptVec \<Rightarrow> 's world \<Rightarrow> error + 's world" where
  "store_vec Null v w = Inl NullPointer"
| "store_vec (Addr a) v w =
     (if a < length (vheap w) then Inr (w\<lparr>vheap := (vheap w)[a := v]\<rparr>)
      else Inl InvalidPointer)"

text \<open>The expression \<open>new T(...)\<close>: the object is placed at an address not in use.\<close>

definition new_vec :: "'s ParOptVec \<Rightarrow> 's world \<Rightarrow> ptr \<times> 's world" where
  "new_vec v w = (Addr (length (vheap w)), w\<lparr>vheap := vheap w @ [v]\<rparr>)"

text \<open>
  Modelled from the spec: the constructor \<open>ParOptBasicVec(comm, n)\<close> of ParOptVec.h,
  "a plain distributed dense vector" of the given local length on the given process
  group. The spec fixes neither the initial values nor what a negative length gives;
  here the values are zeros and a negative length gives no values.
\<close>

definition ParOptBasicVec :: "MPI_Comm \<Rightarrow> cint \<Rightarrow> ('s::zero) ParOptVec" where
  "ParOptBasicVec c n = \<lparr>vcomm = c, vsize = n, vdata = replicate (nat (sint n)) 0\<rparr>"

text \<open>
  Modelled from the spec: the member \<open>copyValues\<close> of ParOptVec.h, the "value copy" of
  the vector capability set: \<open>dst->copyValues(src)\<close> gives \<open>dst\<close> the values of
  \<open>src\<close>. Buffers are never resized and lengths that do not agree are a
  ConfigurationError (spec, sections 7 and 9).
\<close>

definition copyValues :: "ptr \<Rightarrow> ptr \<Rightarrow> 's world \<Rightarrow> error + 's world" where
  "copyValues dst src w =
     bind_err (deref_vec dst w) (\<lambda>d.
     bind_err (deref_vec src w) (\<lambda>s.
       if length (vdata s) \<noteq> length (vdata d) then Inl ConfigurationError
       else store_vec dst (d\<lparr>vdata := vdata s\<rparr>) w))"

subsection \<open>Constructors (lines 41-53)\<close>

definition ParOptProblem_1 :: "MPI_Comm \<Rightarrow> ParOptProblem" where
  "ParOptProblem_1 c = \<lparr>comm = c, nvars = 0, ncon = 0, nwcon = 0, nwblock = 0\<rparr>"

definition ParOptProblem_5 :: "MPI_Comm \<Rightarrow> cint \<Rightarrow> cint \<Rightarrow> cint \<Rightarrow> cint \<Rightarrow> ParOptProblem" where
  "ParOptProblem_5 c n1 n2 n3 n4 = \<lparr>comm = c, nvars = n1, ncon = n2, nwcon = n3, nwblock = n4\<rparr>"

subsection \<open>Vector factories (lines 58-63)\<close>

definition createDesignVec :: "('s::zero) world \<Rightarrow> ptr \<times> 's world" where
  "createDesignVec w = new_vec (ParOptBasicVec (comm (prob w)) (nvars (prob w))) w"

definition createConstraintVec :: "('s::zero) world \<Rightarrow> ptr \<times> 's world" where
  "createConstraintVec w = new_vec (ParOptBasicVec (comm (prob w)) (nwcon (prob w))) w"

subsection \<open>Communicator and sizes (lines 67-89)\<close>

definition getMPIComm :: "'s world \<Rightarrow> MPI_Comm" where
  "getMPIComm w = comm (prob w)"

definition setProblemSizes :: "cint \<Rightarrow> cint \<Rightarrow> cint \<Rightarrow> cint \<Rightarrow> 's world \<Rightarrow> 's world" where
  "setProblemSizes n1 n2 n3 n4 w =
     w\<lparr>prob := (prob w)\<lparr>nvars := n1, ncon := n2, nwcon := n3, nwblock := n4\<rparr>\<rparr>"

text \<open>The four guarded assignments, in the order of the source.\<close>

definition getProblemSizes :: "ptr \<Rightarrow> ptr \<Rightarrow> ptr \<Rightarrow> ptr \<Rightarrow> 's world \<Rightarrow> error + 's world" where
  "getProblemSizes p1 p2 p3 p4 w =
     bind_err (if p1 \<noteq> Null then store_int p1 (nvars (prob w)) w else Inr w) (\<lambda>w1.
     bind_err (if p2 \<noteq> Null then store_int p2 (ncon (prob w1)) w1 else Inr w1) (\<lambda>w2.
     bind_err (if p3 \<noteq> Null then store_int p3 (nwcon (prob w2)) w2 else Inr w2) (\<lambda>w3.
       if p4 \<noteq> Null then store_int p4 (nwblock (prob w3)) w3 else Inr w3)))"

subsection \<open>Optional hooks with a default body (lines 123-143, 168)\<close>

definition evalHessianDiag :: "ptr \<Rightarrow> ptr \<Rightarrow> ptr \<Rightarrow> ptr \<Rightarrow> 's world \<Rightarrow> cint \<times> 's world" where
  "evalHessianDiag x z zw hdiag w = (0, w)"

definition setUpHessianPrecon :: "ptr \<Rightarrow> ptr \<Rightarrow> ptr \<Rightarrow> 's world \<Rightarrow> cint \<times> 's world" where
  "setUpHessianPrecon x z zw w = (0, w)"

definition applyHessianPrecon ::
  "ptr \<Rightarrow> ptr \<Rightarrow> ptr \<Rightarrow> ptr \<Rightarrow> ptr \<Rightarrow> 's world \<Rightarrow> error + cint \<times> 's world" where
  "applyHessianPrecon x z zw inp out w =
     bind_err (copyValues out inp w) (\<lambda>w'. Inr (0, w'))"

definition writeOutput :: "cint \<Rightarrow> ptr \<Rightarrow> 's world \<Rightarrow> 's world" where
  "writeOutput iter x w = w"

subsection \<open>Sequences of calls\<close>

text \<open>
  A call of a member that has a body in the header, with its arguments. The pure
  virtual members are left out: what they do is decided by the class that overrides
  them. Constructors start a sequence and are not part of it.
\<close>

datatype call =
    CreateDesignVec
  | CreateConstraintVec
  | GetMPIComm
  | SetProblemSizes cint cint cint cint
  | GetProblemSizes ptr ptr ptr ptr
  | EvalHessianDiag ptr ptr ptr ptr
  | SetUpHessianPrecon ptr ptr ptr
  | ApplyHessianPrecon ptr ptr ptr ptr ptr
  | WriteOutput cint ptr

text \<open>The state after one call; the value the call returns is dropped.\<close>

fun exec :: "call \<Rightarrow> ('s::zero) world \<Rightarrow> error + 's world" where
  "exec CreateDesignVec w = Inr (snd (createDesignVec w))"
| "exec CreateConstraintVec w = Inr (snd (createConstraintVec w))"
| "exec GetMPIComm w = Inr w"
| "exec (SetProblemSizes n1 n2 n3 n4) w = Inr (setProblemSizes n1 n2 n3 n4 w)"
| "exec (GetProblemSizes p1 p2 p3 p4) w = getProblemSizes p1 p2 p3 p4 w"
| "exec (EvalHessianDiag x z zw hdiag) w = Inr (snd (evalHessianDiag x z zw hdiag w))"
| "exec (SetUpHessianPrecon x z zw) w = Inr (snd (setUpHessianPrecon x z zw w))"
| "exec (ApplyHessianPrecon x z zw inp out) w =
     bind_err (applyHessianPrecon x z zw inp out w) (\<lambda>r. Inr (snd r))"
| "exec (WriteOutput iter x) w = Inr (writeOutput iter x w)"

text \<open>A sequence of calls stops at the first one that fails.\<close>

fun run :: "call list \<Rightarrow> ('s::zero) world \<Rightarrow> error + 's world" where
  "run [] w = Inr w"
| "run (c # cs) w = bind_err (exec c w) (run cs)"

fun is_SetProblemSizes :: "call \<Rightarrow> bool" where
  "is_SetProblemSizes (SetProblemSizes n1 n2 n3 n4) = True"
| "is_SetProblemSizes c = False"

subsection \<open>The sparse-constraint operations (lines 151-163)\<close>

text \<open>
  \<open>addSparseJacobian\<close>, \<open>addSparseJacobianTranspose\<close> and
  \<open>addSparseInnerProduct\<close> are pure virtual: the header gives their signatures and
  the comments above them, the bodies belong to the concrete problems. The definitions
  of this subsection are therefore written from the spec. Vectors and buffers are the
  lists of their values. The scalar type is a field of characteristic zero (the spec: a
  real or complex value type), and arithmetic is exact. The Jacobian of the sparse
  constraints is a parameter \<open>J\<close> of the model: \<open>J x\<close> is the list of its rows at
  the point \<open>x\<close>.
\<close>

text \<open>
  Modelled from the spec: the products \<open>J(x)*px\<close> and \<open>J(x)^T*pzw\<close> of the
  formulas below, a matrix given by its rows times a vector; no body of the sparse
  operations is in the header.
\<close>

definition dot :: "('a::field_char_0) list \<Rightarrow> 'a list \<Rightarrow> 'a" where
  "dot u v = sum_list (map (\<lambda>(a, b). a * b) (zip u v))"

definition mat_vec :: "('a::field_char_0) list list \<Rightarrow> 'a list \<Rightarrow> 'a list" where
  "mat_vec M v = map (\<lambda>r. dot r v) M"

text \<open>
  Modelled from the spec: the accumulation \<open>dst += alpha * c\<close> that all the sparse
  operations perform on their destination ("they never overwrite the destination"). It
  runs over the entries of the contribution and never changes the length of the
  destination.
\<close>

fun accumulate :: "('a::field_char_0) \<Rightarrow> 'a list \<Rightarrow> 'a list \<Rightarrow> 'a list" where
  "accumulate alpha (c # cs) (d # ds) = (d + alpha * c) # accumulate alpha cs ds"
| "accumulate alpha cs ds = ds"

text \<open>
  Modelled from the spec: \<open>addSparseJacobian(alpha, x, px, out)\<close> "accumulates
  out += alpha*J(x)*px".
\<close>

definition addSparseJacobian ::
  "('a list \<Rightarrow> 'a list list) \<Rightarrow> ('a::field_char_0) \<Rightarrow> 'a list \<Rightarrow> 'a list \<Rightarrow> 'a list \<Rightarrow> 'a list" where
  "addSparseJacobian J alpha x px out = accumulate alpha (mat_vec (J x) px) out"

text \<open>
  Modelled from the spec: \<open>addSparseJacobianTranspose(alpha, x, pzw, out)\<close>
  "accumulates out += alpha*J(x)^T*pzw".
\<close>

definition addSparseJacobianTranspose ::
  "('a list \<Rightarrow> 'a list list) \<Rightarrow> ('a::field_char_0) \<Rightarrow> 'a list \<Rightarrow> 'a list \<Rightarrow> 'a list \<Rightarrow> 'a list" where
  "addSparseJacobianTranspose J alpha x pzw out =
     accumulate alpha (mat_vec (transpose (J x)) pzw) out"

text \<open>
  Modelled from the spec: \<open>addSparseInnerProduct(alpha, x, cvec, A)\<close> "accumulates
  A += alpha*J(x)*diag(cvec)*J(x)^T, where A is a caller-owned buffer holding one
  fixed-size square block per structural group (the block size from the Size
  Descriptor)". The rows of the Jacobian are taken in consecutive groups of \<open>nwblock\<close>
  rows; each group contributes its square block, row by row. With a block size that is
  not positive there is no group.
\<close>

definition wdot :: "('a::field_char_0) list \<Rightarrow> 'a list \<Rightarrow> 'a list \<Rightarrow> 'a" where
  "wdot r c s = sum_list (map (\<lambda>(a, d, b). a * d * b) (zip r (zip c s)))"

definition groups :: "nat \<Rightarrow> 'b list \<Rightarrow> 'b list list" where
  "groups b rows = map (\<lambda>g. take b (drop (g * b) rows)) [0..<length rows div b]"

definition inner_block :: "('a::field_char_0) list \<Rightarrow> 'a list list \<Rightarrow> 'a list" where
  "inner_block cvec rows = concat (map (\<lambda>r. map (\<lambda>s. wdot r cvec s) rows) rows)"

definition inner_blocks :: "nat \<Rightarrow> ('a::field_char_0) list list \<Rightarrow> 'a list \<Rightarrow> 'a list" where
  "inner_blocks b Jx cvec = concat (map (inner_block cvec) (groups b Jx))"

definition addSparseInnerProduct ::
  "('a list \<Rightarrow> 'a list list) \<Rightarrow> ParOptProblem \<Rightarrow> ('a::field_char_0) \<Rightarrow> 'a list \<Rightarrow> 'a list \<Rightarrow> 'a list \<Rightarrow> 'a list" where
  "addSparseInnerProduct J p alpha x cvec A =
     accumulate alpha (inner_blocks (nat (sint (nwblock p))) (J x) cvec) A"

subsection \<open>Predicates and sample data used in the statements\<close>

text \<open>An \<open>int*\<close> argument that is null or points to an \<open>int\<close> variable.\<close>

definition null_or_valid :: "ptr \<Rightarrow> 's world \<Rightarrow> bool" where
  "null_or_valid p w = (case p of Null \<Rightarrow> True | Addr a \<Rightarrow> imem w a \<noteq> None)"

text \<open>
  A small state: a problem fresh from the one-argument constructor, four \<open>int\<close>
  variables and two vectors of two values each.
\<close>

definition world0 :: "real world" where
  "world0 = \<lparr>prob = ParOptProblem_1 (MPI_Comm 7),
             imem = [0 \<mapsto> 0, 1 \<mapsto> 0, 2 \<mapsto> 0, 3 \<mapsto> 0],
             smem = Map.empty,
             vheap = [\<lparr>vcomm = MPI_Comm 7, vsize = 2, vdata = [1, 2]\<rparr>,
                      \<lparr>vcomm = MPI_Comm 7, vsize = 2, vdata = [5, 6]\<rparr>]\<rparr>"

definition calls0 :: "call list" where
  "calls0 = [CreateDesignVec, GetProblemSizes (Addr 0) Null (Addr 2) Null,
             ApplyHessianPrecon Null Null Null (Addr 0) (Addr 1), WriteOutput 1 (Addr 0),
             EvalHessianDiag (Addr 0) Null Null (Addr 1), GetMPIComm]"

definition calls1 :: "call list" where
  "calls1 = [SetProblemSizes 3 1 2 1, CreateDesignVec, CreateConstraintVec,
             SetUpHessianPrecon (Addr 0) Null Null,
             ApplyHessianPrecon Null Null Null (Addr 0) (Addr 1),
             GetProblemSizes (Addr 0) (Addr 1) Null Null, SetProblemSizes 0 0 0 0]"

section \<open>Properties\<close>

subsection \<open>Auxiliary facts\<close>

lemma bind_err_Inr: "bind_err (Inr a) f = f a"
  by (simp add: bind_err_def)

lemma bind_err_eq_Inr:
  "bind_err m f = Inr b \<longleftrightarrow> (\<exists>a. m = Inr a \<and> f a = Inr b)"
  by (cases m) (simp_all add: bind_err_def)

lemma deref_vec_Inr:
  "deref_vec p w = Inr v \<longleftrightarrow> (\<exists>a. p = Addr a \<and> a < length (vheap w) \<and> v = vheap w ! a)"
  by (cases p) auto

text \<open>One guarded assignment of \<open>getProblemSizes\<close>: it succeeds and touches one cell.\<close>

lemma guarded_store_ok:
  assumes "null_or_valid p w"
  shows "\<exists>w'. (if p \<noteq> Null then store_int p v w else Inr w) = Inr w' \<and>
     prob w' = prob w \<and> smem w' = smem w \<and> vheap w' = vheap w \<and>
     (\<forall>a. imem w' a = (if p = Addr a then Some v else imem w a)) \<and>
     (\<forall>q. null_or_valid q w' = null_or_valid q w)"
proof (cases p)
  case Null
  then show ?thesis by simp
next
  case (Addr a)
  with assms obtain u where u: "imem w a = Some u"
    by (auto simp: null_or_valid_def)
  show ?thesis
    using Addr u by (auto simp: null_or_valid_def split: ptr.splits)
qed

lemma store_int_prob: "store_int p v w = Inr w' \<Longrightarrow> prob w' = prob w"
  by (cases p) (auto split: option.splits)

lemma guarded_store_prob:
  "(if p \<noteq> Null then store_int p v w else Inr w) = Inr w' \<Longrightarrow> prob w' = prob w"
  by (auto split: if_splits dest: store_int_prob)

lemma getProblemSizes_prob:
  assumes "getProblemSizes p1 p2 p3 p4 w = Inr w'"
  shows "prob w' = prob w"
proof -
  from assms obtain w1 w2 w3 where
    s1: "(if p1 \<noteq> Null then store_int p1 (nvars (prob w)) w else Inr w) = Inr w1" and
    s2: "(if p2 \<noteq> Null then store_int p2 (ncon (prob w1)) w1 else Inr w1) = Inr w2" and
    s3: "(if p3 \<noteq> Null then store_int p3 (nwcon (prob w2)) w2 else Inr w2) = Inr w3" and
    s4: "(if p4 \<noteq> Null then store_int p4 (nwblock (prob w3)) w3 else Inr w3) = Inr w'"
    unfolding getProblemSizes_def bind_err_eq_Inr by blast
  show ?thesis
    using guarded_store_prob [OF s1] guarded_store_prob [OF s2]
      guarded_store_prob [OF s3] guarded_store_prob [OF s4] by simp
qed

lemma store_vec_prob: "store_vec p v w = Inr w' \<Longrightarrow> prob w' = prob w"
  by (cases p) (auto split: if_splits)

lemma copyValues_prob: "copyValues dst src w = Inr w' \<Longrightarrow> prob w' = prob w"
  by (auto simp: copyValues_def bind_err_eq_Inr split: if_splits dest: store_vec_prob)

lemma applyHessianPrecon_prob:
  "applyHessianPrecon x z zw inp out w = Inr (r, w') \<Longrightarrow> prob w' = prob w"
  by (auto simp: applyHessianPrecon_def bind_err_eq_Inr dest: copyValues_prob)

text \<open>Only \<open>setProblemSizes\<close> assigns to a data member, and it leaves \<open>comm\<close> alone.\<close>

lemma exec_prob:
  assumes "exec c w = Inr w'" and "\<not> is_SetProblemSizes c"
  shows "prob w' = prob w"
proof (cases c)
  case (GetProblemSizes p1 p2 p3 p4)
  with assms show ?thesis by (simp add: getProblemSizes_prob)
next
  case (ApplyHessianPrecon x z zw inp out)
  with assms show ?thesis
    by (auto simp: bind_err_eq_Inr dest: applyHessianPrecon_prob)
next
  case (SetProblemSizes n1 n2 n3 n4)
  with assms show ?thesis by simp
qed (use assms in \<open>auto simp: createDesignVec_def createConstraintVec_def new_vec_def
      evalHessianDiag_def setUpHessianPrecon_def writeOutput_def\<close>)

lemma exec_comm:
  assumes "exec c w = Inr w'"
  shows "comm (prob w') = comm (prob w)"
proof (cases "is_SetProblemSizes c")
  case False
  with assms show ?thesis by (simp add: exec_prob)
next
  case True
  then obtain n1 n2 n3 n4 where "c = SetProblemSizes n1 n2 n3 n4"
    by (cases c) simp_all
  with assms show ?thesis by (auto simp: setProblemSizes_def)
qed

lemma run_comm: "run cs w = Inr w' \<Longrightarrow> comm (prob w') = comm (prob w)"
proof (induction cs arbitrary: w)
  case Nil
  then show ?case by simp
next
  case (Cons c cs)
  then obtain w1 where "exec c w = Inr w1" and "run cs w1 = Inr w'"
    by (auto simp: bind_err_eq_Inr)
  then show ?case using Cons.IH exec_comm by fastforce
qed

lemma run_prob:
  "run cs w = Inr w' \<Longrightarrow> \<forall>c \<in> set cs. \<not> is_SetProblemSizes c \<Longrightarrow> prob w' = prob w"
proof (induction cs arbitrary: w)
  case Nil
  then show ?case by simp
next
  case (Cons c cs)
  then obtain w1 where "exec c w = Inr w1" and "run cs w1 = Inr w'"
    by (auto simp: bind_err_eq_Inr)
  then show ?case using Cons.IH Cons.prems(2) exec_prob by fastforce
qed

lemma copyValues_ok:
  assumes "deref_vec src w = Inr vs" and "deref_vec dst w = Inr vd"
    and "length (vdata vs) = length (vdata vd)"
  shows "\<exists>a. dst = Addr a \<and> a < length (vheap w) \<and>
     copyValues dst src w = Inr (w\<lparr>vheap := (vheap w)[a := vd\<lparr>vdata := vdata vs\<rparr>]\<rparr>)"
  using assms by (cases dst) (auto simp: copyValues_def bind_err_def split: if_splits)

lemma run_calls0: "\<exists>w'. run calls0 world0 = Inr w'"
  by (simp add: calls0_def world0_def bind_err_def createDesignVec_def new_vec_def
      getProblemSizes_def applyHessianPrecon_def copyValues_def evalHessianDiag_def
      writeOutput_def)

lemma run_calls1: "\<exists>w'. run calls1 world0 = Inr w'"
  by (simp add: calls1_def world0_def bind_err_def createDesignVec_def
      createConstraintVec_def new_vec_def getProblemSizes_def setProblemSizes_def
      applyHessianPrecon_def copyValues_def setUpHessianPrecon_def)

lemma accumulate_zero: "accumulate 0 cs ds = ds"
proof (induction cs arbitrary: ds)
  case Nil
  show ?case by simp
next
  case (Cons c cs)
  then show ?case by (cases ds) simp_all
qed

lemma accumulate_twice:
  "accumulate b cs (accumulate a cs ds) = accumulate (a + b) cs ds"
proof (induction cs arbitrary: ds)
  case Nil
  show ?case by simp
next
  case (Cons c cs)
  then show ?case by (cases ds) (simp_all add: algebra_simps)
qed

subsection \<open>Sizes: set, read back, initial values\<close>

text \<open>
  C1. For every four \<open>int\<close> values, \<open>setProblemSizes\<close> followed by
  \<open>getProblemSizes\<close> with four non-null pointers to \<open>int\<close> variables succeeds and
  assigns through the four pointers, in this order, exactly the four values that were
  set; read through four different pointers afterwards, each variable holds the value
  set for its field. (When two of the pointers name the same variable, the later
  assignment is the one that remains, as the equation for the memory says.)
\<close>

theorem setProblemSizes_getProblemSizes:
  assumes "imem w a1 \<noteq> None" and "imem w a2 \<noteq> None"
    and "imem w a3 \<noteq> None" and "imem w a4 \<noteq> None"
  shows "\<exists>w'. getProblemSizes (Addr a1) (Addr a2) (Addr a3) (Addr a4)
             (setProblemSizes n1 n2 n3 n4 w) = Inr w' \<and>
     imem w' = (imem w)(a1 \<mapsto> n1, a2 \<mapsto> n2, a3 \<mapsto> n3, a4 \<mapsto> n4) \<and>
     (distinct [a1, a2, a3, a4] \<longrightarrow>
        load_int (Addr a1) w' = Inr n1 \<and> load_int (Addr a2) w' = Inr n2 \<and>
        load_int (Addr a3) w' = Inr n3 \<and> load_int (Addr a4) w' = Inr n4)"
  using assms
  by (auto simp: getProblemSizes_def setProblemSizes_def bind_err_def)

theorem setProblemSizes_getProblemSizes_witness:
  "imem world0 0 \<noteq> None \<and> imem world0 1 \<noteq> None \<and> imem world0 2 \<noteq> None \<and>
   imem world0 3 \<noteq> None \<and> distinct [0, 1, 2, 3 :: nat] \<and>
   (\<exists>w'. getProblemSizes (Addr 0) (Addr 1) (Addr 2) (Addr 3)
            (setProblemSizes 10 20 30 (- 1) world0) = Inr w' \<and>
      load_int (Addr 0) w' = Inr 10 \<and> load_int (Addr 1) w' = Inr 20 \<and>
      load_int (Addr 2) w' = Inr 30 \<and> load_int (Addr 3) w' = Inr (- 1))"
proof -
  have h0: "imem world0 0 \<noteq> None" and h1: "imem world0 1 \<noteq> None"
    and h2: "imem world0 2 \<noteq> None" and h3: "imem world0 3 \<noteq> None"
    by (simp_all add: world0_def)
  have d: "distinct [0, 1, 2, 3 :: nat]"
    by simp
  from setProblemSizes_getProblemSizes [OF h0 h1 h2 h3, of 10 20 30 "- 1"] d
  have "\<exists>w'. getProblemSizes (Addr 0) (Addr 1) (Addr 2) (Addr 3)
            (setProblemSizes 10 20 30 (- 1) world0) = Inr w' \<and>
      load_int (Addr 0) w' = Inr 10 \<and> load_int (Addr 1) w' = Inr 20 \<and>
      load_int (Addr 2) w' = Inr 30 \<and> load_int (Addr 3) w' = Inr (- 1)"
    by blast
  with h0 h1 h2 h3 d show ?thesis
    by blast
qed

text \<open>
  C9. \<open>getProblemSizes\<close> tolerates null output pointers: whichever of its four
  pointers are null, as long as the others point to \<open>int\<close> variables the call returns
  without error and writes through the non-null pointers only. Every \<open>int\<close> variable
  is accounted for: the target of a non-null pointer holds the size of that pointer's
  field (\<open>nvars\<close>, \<open>ncon\<close>, \<open>nwcon\<close>, \<open>nwblock\<close> in this order; where two pointers
  name one variable the later assignment remains), and every other variable holds what
  it held before. The problem object, the scalar cells and the vectors are as before.
\<close>

theorem getProblemSizes_null_tolerant:
  assumes "null_or_valid p1 w" and "null_or_valid p2 w"
    and "null_or_valid p3 w" and "null_or_valid p4 w"
  shows "\<exists>w'. getProblemSizes p1 p2 p3 p4 w = Inr w' \<and>
     prob w' = prob w \<and> smem w' = smem w \<and> vheap w' = vheap w \<and>
     (\<forall>a. Addr a \<notin> {p1, p2, p3, p4} \<longrightarrow> imem w' a = imem w a) \<and>
     (\<forall>a. imem w' a =
        (if p4 = Addr a then Some (nwblock (prob w))
         else if p3 = Addr a then Some (nwcon (prob w))
         else if p2 = Addr a then Some (ncon (prob w))
         else if p1 = Addr a then Some (nvars (prob w))
         else imem w a))"
proof -
  from guarded_store_ok [OF assms(1), of "nvars (prob w)"]
  obtain w1 where w1:
    "(if p1 \<noteq> Null then store_int p1 (nvars (prob w)) w else Inr w) = Inr w1"
    "prob w1 = prob w" "smem w1 = smem w" "vheap w1 = vheap w"
    "\<forall>a. imem w1 a = (if p1 = Addr a then Some (nvars (prob w)) else imem w a)"
    "\<forall>q. null_or_valid q w1 = null_or_valid q w"
    by blast
  have v2: "null_or_valid p2 w1"
    using w1(6) assms(2) by simp
  from guarded_store_ok [OF v2, of "ncon (prob w1)"]
  obtain w2 where w2:
    "(if p2 \<noteq> Null then store_int p2 (ncon (prob w1)) w1 else Inr w1) = Inr w2"
    "prob w2 = prob w1" "smem w2 = smem w1" "vheap w2 = vheap w1"
    "\<forall>a. imem w2 a = (if p2 = Addr a then Some (ncon (prob w1)) else imem w1 a)"
    "\<forall>q. null_or_valid q w2 = null_or_valid q w1"
    by blast
  have v3: "null_or_valid p3 w2"
    using w1(6) w2(6) assms(3) by simp
  from guarded_store_ok [OF v3, of "nwcon (prob w2)"]
  obtain w3 where w3:
    "(if p3 \<noteq> Null then store_int p3 (nwcon (prob w2)) w2 else Inr w2) = Inr w3"
    "prob w3 = prob w2" "smem w3 = smem w2" "vheap w3 = vheap w2"
    "\<forall>a. imem w3 a = (if p3 = Addr a then Some (nwcon (prob w2)) else imem w2 a)"
    "\<forall>q. null_or_valid q w3 = null_or_valid q w2"
    by blast
  have v4: "null_or_valid p4 w3"
    using w1(6) w2(6) w3(6) assms(4) by simp
  from guarded_store_ok [OF v4, of "nwblock (prob w3)"]
  obtain w4 where w4:
    "(if p4 \<noteq> Null then store_int p4 (nwblock (prob w3)) w3 else Inr w3) = Inr w4"
    "prob w4 = prob w3" "smem w4 = smem w3" "vheap w4 = vheap w3"
    "\<forall>a. imem w4 a = (if p4 = Addr a then Some (nwblock (prob w3)) else imem w3 a)"
    by blast
  have ok: "getProblemSizes p1 p2 p3 p4 w = Inr w4"
    unfolding getProblemSizes_def
    by (simp only: w1(1) w2(1) w3(1) w4(1) bind_err_Inr)
  have cells: "\<forall>a. imem w4 a =
        (if p4 = Addr a then Some (nwblock (prob w))
         else if p3 = Addr a then Some (nwcon (prob w))
         else if p2 = Addr a then Some (ncon (prob w))
         else if p1 = Addr a then Some (nvars (prob w))
         else imem w a)"
    using w1(5) w2(5) w3(5) w4(5) w1(2) w2(2) w3(2) by simp
  have frame: "\<forall>a. Addr a \<notin> {p1, p2, p3, p4} \<longrightarrow> imem w4 a = imem w a"
    using cells by simp
  show ?thesis
    using ok frame cells w1(2-4) w2(2-4) w3(2-4) w4(2-4) by simp
qed

theorem getProblemSizes_null_tolerant_witness:
  "null_or_valid Null (setProblemSizes 5 6 7 8 world0) \<and>
   null_or_valid (Addr 1) (setProblemSizes 5 6 7 8 world0) \<and>
   null_or_valid (Addr 3) (setProblemSizes 5 6 7 8 world0) \<and>
   (\<exists>w'. getProblemSizes Null (Addr 1) Null (Addr 3) (setProblemSizes 5 6 7 8 world0)
            = Inr w' \<and>
     prob w' = prob (setProblemSizes 5 6 7 8 world0) \<and>
     smem w' = smem world0 \<and> vheap w' = vheap world0 \<and>
     imem w' 0 = Some 0 \<and> imem w' 1 = Some 6 \<and> imem w' 2 = Some 0 \<and>
     imem w' 3 = Some 8 \<and> imem w' 4 = None)"
proof -
  let ?w = "setProblemSizes 5 6 7 8 world0"
  have h0: "null_or_valid Null ?w"
    by (simp add: null_or_valid_def)
  have h1: "null_or_valid (Addr 1) ?w"
    by (simp add: null_or_valid_def world0_def setProblemSizes_def)
  have h3: "null_or_valid (Addr 3) ?w"
    by (simp add: null_or_valid_def world0_def setProblemSizes_def)
  have s: "ncon (prob ?w) = 6" "nwblock (prob ?w) = 8" "smem ?w = smem world0"
    "vheap ?w = vheap world0"
    by (simp_all add: setProblemSizes_def)
  have m: "imem ?w 0 = Some 0" "imem ?w 1 = Some 0" "imem ?w 2 = Some 0"
    "imem ?w 3 = Some 0" "imem ?w 4 = None"
    by (simp_all add: setProblemSizes_def world0_def)
  from getProblemSizes_null_tolerant [OF h0 h1 h0 h3]
  obtain w' where r: "getProblemSizes Null (Addr 1) Null (Addr 3) ?w = Inr w'"
    "prob w' = prob ?w" "smem w' = smem ?w" "vheap w' = vheap ?w"
    and c: "\<forall>a. imem w' a =
        (if Addr 3 = Addr a then Some (nwblock (prob ?w))
         else if Null = Addr a then Some (nwcon (prob ?w))
         else if Addr 1 = Addr a then Some (ncon (prob ?w))
         else if Null = Addr a then Some (nvars (prob ?w))
         else imem ?w a)"
    by blast
  have "imem w' 0 = Some 0" "imem w' 1 = Some 6" "imem w' 2 = Some 0"
    "imem w' 3 = Some 8" "imem w' 4 = None"
    using c [rule_format, of 0] c [rule_format, of 1] c [rule_format, of 2]
      c [rule_format, of 3] c [rule_format, of 4]
    by (simp_all add: s m)
  with h0 h1 h3 r s show ?thesis
    by auto
qed

text \<open>
  C10. A problem built by the one-argument constructor has all four sizes equal to
  zero, and they stay zero over every sequence of calls in which \<open>setProblemSizes\<close>
  does not occur (the empty sequence is the state right after construction).
\<close>

theorem ParOptProblem_1_sizes_zero:
  assumes "prob w = ParOptProblem_1 c"
    and "\<forall>k \<in> set cs. \<not> is_SetProblemSizes k"
    and "run cs w = Inr w'"
  shows "nvars (prob w') = 0 \<and> ncon (prob w') = 0 \<and> nwcon (prob w') = 0 \<and>
     nwblock (prob w') = 0"
  using assms run_prob [of cs w w'] by (simp add: ParOptProblem_1_def)

theorem ParOptProblem_1_sizes_zero_witness:
  "prob world0 = ParOptProblem_1 (MPI_Comm 7) \<and>
   list_all (\<lambda>k. \<not> is_SetProblemSizes k) calls0 \<and>
   (\<exists>w'. run calls0 world0 = Inr w' \<and> nvars (prob w') = 0 \<and> ncon (prob w') = 0 \<and>
      nwcon (prob w') = 0 \<and> nwblock (prob w') = 0)"
proof -
  have h1: "prob world0 = ParOptProblem_1 (MPI_Comm 7)"
    by (simp add: world0_def)
  have h2: "\<forall>k \<in> set calls0. \<not> is_SetProblemSizes k"
    by (simp add: calls0_def)
  obtain w' where h3: "run calls0 world0 = Inr w'"
    using run_calls0 by blast
  have "list_all (\<lambda>k. \<not> is_SetProblemSizes k) calls0"
    using h2 by (simp add: list_all_iff)
  then show ?thesis
    using h1 h3 ParOptProblem_1_sizes_zero [OF h1 h2 h3] by blast
qed

subsection \<open>The communicator\<close>

text \<open>
  C7. The communicator is fixed at construction: for a problem built by either
  constructor from the communicator \<open>c\<close>, \<open>getMPIComm\<close> returns \<open>c\<close> right away and
  after every sequence of calls of the members the class defines, \<open>setProblemSizes\<close>
  included.
\<close>

theorem comm_fixed_at_construction:
  assumes "prob w = ParOptProblem_1 c \<or> prob w = ParOptProblem_5 c n1 n2 n3 n4"
    and "run cs w = Inr w'"
  shows "getMPIComm w = c \<and> getMPIComm w' = c"
  using assms run_comm [of cs w w']
  by (auto simp: getMPIComm_def ParOptProblem_1_def ParOptProblem_5_def)

theorem comm_fixed_at_construction_witness:
  "prob world0 = ParOptProblem_1 (MPI_Comm 7) \<and>
   (\<exists>w'. run calls1 world0 = Inr w' \<and> getMPIComm w' = MPI_Comm 7)"
proof -
  have h1: "prob world0 = ParOptProblem_1 (MPI_Comm 7)"
    by (simp add: world0_def)
  then have h1': "prob world0 = ParOptProblem_1 (MPI_Comm 7) \<or>
      prob world0 = ParOptProblem_5 (MPI_Comm 7) 0 0 0 0"
    by simp
  obtain w' where h2: "run calls1 world0 = Inr w'"
    using run_calls1 by blast
  show ?thesis
    using h1 h2 comm_fixed_at_construction [OF h1' h2] by blast
qed

subsection \<open>Default hooks\<close>

text \<open>
  C2. The default \<open>evalHessianDiag\<close> returns 0 and changes nothing, whatever its
  arguments: the state after the call is the state before it, so the vector \<open>hdiag\<close>
  points to is untouched.
\<close>

theorem evalHessianDiag_default:
  "evalHessianDiag x z zw hdiag w = (0, w) \<and>
   deref_vec hdiag (snd (evalHessianDiag x z zw hdiag w)) = deref_vec hdiag w"
  by (simp add: evalHessianDiag_def)

text \<open>
  C3. The default preconditioner: \<open>setUpHessianPrecon\<close> returns 0 and changes nothing,
  for all arguments. \<open>applyHessianPrecon\<close>, given pointers \<open>in\<close> and \<open>out\<close> to vectors
  of the same length, returns 0 and leaves in \<open>out\<close> the values of \<open>in\<close>; \<open>in\<close> keeps
  its values, \<open>out\<close> keeps its length and process group, and every other vector, the
  problem object and the caller's variables are as before.
\<close>

theorem HessianPrecon_default:
  "setUpHessianPrecon x z zw w = (0, w) \<and>
   (deref_vec inp w = Inr vi \<and> deref_vec out w = Inr vo \<and>
    length (vdata vi) = length (vdata vo) \<longrightarrow>
    (\<exists>w' vo' vi'. applyHessianPrecon x z zw inp out w = Inr (0, w') \<and>
       deref_vec out w' = Inr vo' \<and> vdata vo' = vdata vi \<and>
       vcomm vo' = vcomm vo \<and> vsize vo' = vsize vo \<and>
       deref_vec inp w' = Inr vi' \<and> vdata vi' = vdata vi \<and>
       (\<forall>q. q \<noteq> out \<longrightarrow> deref_vec q w' = deref_vec q w) \<and>
       prob w' = prob w \<and> imem w' = imem w \<and> smem w' = smem w))"
proof (intro conjI impI)
  show "setUpHessianPrecon x z zw w = (0, w)"
    by (simp add: setUpHessianPrecon_def)
next
  assume h: "deref_vec inp w = Inr vi \<and> deref_vec out w = Inr vo \<and>
    length (vdata vi) = length (vdata vo)"
  then obtain a where a: "out = Addr a" "a < length (vheap w)"
    and cp: "copyValues out inp w = Inr (w\<lparr>vheap := (vheap w)[a := vo\<lparr>vdata := vdata vi\<rparr>]\<rparr>)"
    using copyValues_ok [of inp w vi out vo] by blast
  let ?w' = "w\<lparr>vheap := (vheap w)[a := vo\<lparr>vdata := vdata vi\<rparr>]\<rparr>"
  have r: "applyHessianPrecon x z zw inp out w = Inr (0, ?w')"
    by (simp add: applyHessianPrecon_def cp bind_err_Inr)
  have o: "deref_vec out ?w' = Inr (vo\<lparr>vdata := vdata vi\<rparr>)"
    using a by simp
  obtain b where b: "inp = Addr b" "b < length (vheap w)" "vi = vheap w ! b"
    using h by (auto simp: deref_vec_Inr)
  have i: "\<exists>vi'. deref_vec inp ?w' = Inr vi' \<and> vdata vi' = vdata vi"
    using a b by (cases "a = b") simp_all
  have f: "\<forall>q. q \<noteq> out \<longrightarrow> deref_vec q ?w' = deref_vec q w"
  proof (intro allI impI)
    fix q assume "q \<noteq> out"
    then show "deref_vec q ?w' = deref_vec q w"
      using a by (cases q) auto
  qed
  show "\<exists>w' vo' vi'. applyHessianPrecon x z zw inp out w = Inr (0, w') \<and>
       deref_vec out w' = Inr vo' \<and> vdata vo' = vdata vi \<and>
       vcomm vo' = vcomm vo \<and> vsize vo' = vsize vo \<and>
       deref_vec inp w' = Inr vi' \<and> vdata vi' = vdata vi \<and>
       (\<forall>q. q \<noteq> out \<longrightarrow> deref_vec q w' = deref_vec q w) \<and>
       prob w' = prob w \<and> imem w' = imem w \<and> smem w' = smem w"
    using r o i f by auto
qed

theorem HessianPrecon_default_witness:
  "deref_vec (Addr 0) world0 = Inr \<lparr>vcomm = MPI_Comm 7, vsize = 2, vdata = [1, 2]\<rparr> \<and>
   deref_vec (Addr 1) world0 = Inr \<lparr>vcomm = MPI_Comm 7, vsize = 2, vdata = [5, 6]\<rparr> \<and>
   (\<exists>w' vo'. applyHessianPrecon Null Null Null (Addr 0) (Addr 1) world0 = Inr (0, w') \<and>
      deref_vec (Addr 1) w' = Inr vo' \<and> vdata vo' = [1, 2] \<and>
      deref_vec (Addr 0) w' = deref_vec (Addr 0) world0)"
proof -
  have h1: "deref_vec (Addr 0) world0 = Inr \<lparr>vcomm = MPI_Comm 7, vsize = 2, vdata = [1, 2]\<rparr>"
    by (simp add: world0_def)
  have h2: "deref_vec (Addr 1) world0 = Inr \<lparr>vcomm = MPI_Comm 7, vsize = 2, vdata = [5, 6]\<rparr>"
    by (simp add: world0_def)
  have "\<exists>w' vo' vi'. applyHessianPrecon Null Null Null (Addr 0) (Addr 1) world0 = Inr (0, w') \<and>
       deref_vec (Addr 1) w' = Inr vo' \<and> vdata vo' = [1, 2] \<and>
       vcomm vo' = MPI_Comm 7 \<and> vsize vo' = 2 \<and>
       deref_vec (Addr 0) w' = Inr vi' \<and> vdata vi' = [1, 2] \<and>
       (\<forall>q. q \<noteq> Addr 1 \<longrightarrow> deref_vec q w' = deref_vec q world0) \<and>
       prob w' = prob world0 \<and> imem w' = imem world0 \<and> smem w' = smem world0"
    using h1 h2
      HessianPrecon_default [of Null Null Null world0 "Addr 0"
        "\<lparr>vcomm = MPI_Comm 7, vsize = 2, vdata = [1, 2]\<rparr>" "Addr 1"
        "\<lparr>vcomm = MPI_Comm 7, vsize = 2, vdata = [5, 6]\<rparr>"]
    by simp
  then obtain w' vo' where
    "applyHessianPrecon Null Null Null (Addr 0) (Addr 1) world0 = Inr (0, w')"
    "deref_vec (Addr 1) w' = Inr vo'" "vdata vo' = [1, 2]"
    "\<forall>q. q \<noteq> Addr 1 \<longrightarrow> deref_vec q w' = deref_vec q world0"
    by blast
  then have "\<exists>w' vo'. applyHessianPrecon Null Null Null (Addr 0) (Addr 1) world0 = Inr (0, w') \<and>
      deref_vec (Addr 1) w' = Inr vo' \<and> vdata vo' = [1, 2] \<and>
      deref_vec (Addr 0) w' = deref_vec (Addr 0) world0"
    by auto
  with h1 h2 show ?thesis
    by blast
qed

text \<open>
  C8. The default \<open>writeOutput\<close> does nothing, for every iteration number and every
  pointer \<open>x\<close>: the state after the call is the state before it, so neither the vector
  \<open>x\<close> points to nor the problem object changes.
\<close>

theorem writeOutput_default:
  "writeOutput iter x w = w \<and> deref_vec x (writeOutput iter x w) = deref_vec x w \<and>
   prob (writeOutput iter x w) = prob w"
  by (simp add: writeOutput_def)

subsection \<open>Vector factories\<close>

text \<open>
  C5. The default \<open>createDesignVec\<close> returns a pointer that pointed to no vector
  before the call and now points to a vector on the problem's communicator whose length
  is \<open>nvars\<close>; the default \<open>createConstraintVec\<close> does the same with \<open>nwcon\<close>. The
  vectors that existed before are unchanged, and so is the problem object, which holds
  no reference to the new vector: it is the caller's.
\<close>

theorem createVec_default:
  "(case createDesignVec w of (p, w') \<Rightarrow>
      deref_vec p w = Inl InvalidPointer \<and>
      (\<exists>v. deref_vec p w' = Inr v \<and> vcomm v = getMPIComm w \<and> vsize v = nvars (prob w) \<and>
           length (vdata v) = nat (sint (nvars (prob w)))) \<and>
      (\<forall>q v. deref_vec q w = Inr v \<longrightarrow> deref_vec q w' = Inr v) \<and>
      prob w' = prob w \<and> imem w' = imem w \<and> smem w' = smem w) \<and>
   (case createConstraintVec w of (p, w') \<Rightarrow>
      deref_vec p w = Inl InvalidPointer \<and>
      (\<exists>v. deref_vec p w' = Inr v \<and> vcomm v = getMPIComm w \<and> vsize v = nwcon (prob w) \<and>
           length (vdata v) = nat (sint (nwcon (prob w)))) \<and>
      (\<forall>q v. deref_vec q w = Inr v \<longrightarrow> deref_vec q w' = Inr v) \<and>
      prob w' = prob w \<and> imem w' = imem w \<and> smem w' = smem w)"
  by (auto simp: createDesignVec_def createConstraintVec_def new_vec_def ParOptBasicVec_def
      getMPIComm_def deref_vec_Inr nth_append)

theorem createVec_default_witness:
  "deref_vec (Addr 1) (setProblemSizes 3 1 2 1 world0) =
     Inr \<lparr>vcomm = MPI_Comm 7, vsize = 2, vdata = [5, 6]\<rparr> \<and>
   deref_vec (Addr 1) (snd (createDesignVec (setProblemSizes 3 1 2 1 world0))) =
     Inr \<lparr>vcomm = MPI_Comm 7, vsize = 2, vdata = [5, 6]\<rparr> \<and>
   (\<exists>v. deref_vec (fst (createDesignVec (setProblemSizes 3 1 2 1 world0)))
             (snd (createDesignVec (setProblemSizes 3 1 2 1 world0))) = Inr v \<and>
        vcomm v = MPI_Comm 7 \<and> vsize v = 3 \<and> length (vdata v) = 3)"
proof -
  let ?w = "setProblemSizes 3 1 2 1 world0"
  have h: "deref_vec (Addr 1) ?w = Inr \<lparr>vcomm = MPI_Comm 7, vsize = 2, vdata = [5, 6]\<rparr>"
    by (simp add: world0_def setProblemSizes_def)
  have g: "getMPIComm ?w = MPI_Comm 7" "nvars (prob ?w) = 3"
    by (simp_all add: world0_def setProblemSizes_def getMPIComm_def ParOptProblem_1_def)
  have s: "nat (sint (3 :: cint)) = 3"
    by simp
  obtain p w' where pw: "createDesignVec ?w = (p, w')"
    by (cases "createDesignVec ?w")
  from createVec_default [of ?w] pw
  have new: "\<exists>v. deref_vec p w' = Inr v \<and> vcomm v = getMPIComm ?w \<and>
      vsize v = nvars (prob ?w) \<and> length (vdata v) = nat (sint (nvars (prob ?w)))"
    and old: "\<forall>q v. deref_vec q ?w = Inr v \<longrightarrow> deref_vec q w' = Inr v"
    by simp_all
  from old h
  have kept: "deref_vec (Addr 1) w' = Inr \<lparr>vcomm = MPI_Comm 7, vsize = 2, vdata = [5, 6]\<rparr>"
    by blast
  from new have new': "\<exists>v. deref_vec p w' = Inr v \<and> vcomm v = MPI_Comm 7 \<and>
      vsize v = 3 \<and> length (vdata v) = 3"
    by (simp only: g s)
  from pw have fs: "fst (createDesignVec ?w) = p" "snd (createDesignVec ?w) = w'"
    by simp_all
  show ?thesis
    using h kept new' by (simp only: fs)
qed

subsection \<open>Sparse-constraint operations\<close>

text \<open>
  C4. The three accumulating sparse operations leave the destination unchanged when
  \<open>alpha = 0\<close>, and a call with \<open>alpha\<close> followed by a call with \<open>- alpha\<close> (same point
  and direction) restores the destination. In exact arithmetic the destination is
  restored exactly, hence within every tolerance.
\<close>

theorem sparse_operations_additive:
  "addSparseJacobian J 0 x px out = out \<and>
   addSparseJacobianTranspose J 0 x pzw out = out \<and>
   addSparseInnerProduct J p 0 x cvec A = A \<and>
   addSparseJacobian J (- alpha) x px (addSparseJacobian J alpha x px out) = out \<and>
   addSparseJacobianTranspose J (- alpha) x pzw
     (addSparseJacobianTranspose J alpha x pzw out) = out \<and>
   addSparseInnerProduct J p (- alpha) x cvec (addSparseInnerProduct J p alpha x cvec A) = A"
  by (simp add: addSparseJacobian_def addSparseJacobianTranspose_def
      addSparseInnerProduct_def accumulate_zero accumulate_twice)

text \<open>
  C6. Two calls of \<open>addSparseInnerProduct\<close> with \<open>alpha = 1/2\<close> and the same point
  and weights accumulate into the block buffer \<open>A\<close> what one call with \<open>alpha = 1\<close>
  does, whatever \<open>A\<close> holds at the start.
\<close>

theorem addSparseInnerProduct_halves:
  "addSparseInnerProduct J p (1 / 2) x cvec (addSparseInnerProduct J p (1 / 2) x cvec A)
     = addSparseInnerProduct J p 1 x cvec A"
  by (simp add: addSparseInnerProduct_def accumulate_twice)

end
